theory Spec2Isabelle
  imports Main "HOL-Library.AList"
begin

section \<open>Data model\<close>

text \<open>
  The Kubernetes API objects, restricted to the fields the simulator code reads or
  writes. A Go pointer to a struct that the code dereferences without a check is a value
  here; a pointer that the code compares with nil (\<^verbatim>\<open>NodeInfo.Node()\<close>) is an
  option.
\<close>

record ObjectMeta =
  Name :: string
  Namespace :: string
  Labels :: "(string \<times> string) list"

record Taint =
  Key :: string
  Value :: string
  Effect :: string

record PodSpec =
  NodeName :: string
  Tolerations :: "string list"
  HostPorts :: "nat list"

record PodStatus =
  NominatedNodeName :: string

record Pod =
  Pod_ObjectMeta :: ObjectMeta
  Pod_Spec :: PodSpec
  Pod_Status :: PodStatus

record NodeSpec =
  Unschedulable :: bool
  Taints :: "Taint list"

record Node =
  Node_ObjectMeta :: ObjectMeta
  Node_Spec :: NodeSpec

text \<open>
  \<^verbatim>\<open>NodeInfo\<close> of the scheduler: the node (nil until \<^verbatim>\<open>SetNode\<close>) and the
  pods added so far, in the order of the \<^verbatim>\<open>AddPod\<close> calls.
\<close>

record NodeInfo =
  node :: "Node option"
  Pods :: "Pod list"

definition NewNodeInfo :: NodeInfo where
  "NewNodeInfo = \<lparr>node = None, Pods = []\<rparr>"

definition AddPod :: "NodeInfo \<Rightarrow> Pod \<Rightarrow> NodeInfo" where
  "AddPod ni pod = ni\<lparr>Pods := Pods ni @ [pod]\<rparr>"

definition SetNode :: "NodeInfo \<Rightarrow> Node \<Rightarrow> NodeInfo" where
  "SetNode ni n = ni\<lparr>node := Some n\<rparr>"

text \<open>
  A Go \<^verbatim>\<open>map[string]*NodeInfo\<close> is an association list with one entry per key;
  \<open>map_of\<close> is the lookup, \<open>AList.update\<close> the assignment \<^verbatim>\<open>m[k] = v\<close> and
  \<open>AList.delete\<close> the builtin \<^verbatim>\<open>delete(m, k)\<close>.
\<close>

type_synonym NodeInfoMap = "(string \<times> NodeInfo) list"

section \<open>utils/scheduler: CreateNodeNameToInfoMap\<close>

text \<open>The body of the first loop, for one pod.\<close>

definition addPodToMap :: "NodeInfoMap \<Rightarrow> Pod \<Rightarrow> NodeInfoMap" where
  "addPodToMap m pod =
     (let nodeName = (if NodeName (Pod_Spec pod) = ''''
                      then NominatedNodeName (Pod_Status pod)
                      else NodeName (Pod_Spec pod));
          m1 = (if map_of m nodeName = None then AList.update nodeName NewNodeInfo m else m)
      in case map_of m1 nodeName of
           Some ni \<Rightarrow> AList.update nodeName (AddPod ni pod) m1
         | None \<Rightarrow> m1)"

text \<open>The body of the second loop, for one node.\<close>

definition setNodeInMap :: "NodeInfoMap \<Rightarrow> Node \<Rightarrow> NodeInfoMap" where
  "setNodeInMap m n =
     (let k = Name (Node_ObjectMeta n);
          m1 = (if map_of m k = None then AList.update k NewNodeInfo m else m)
      in case map_of m1 k of
           Some ni \<Rightarrow> AList.update k (SetNode ni n) m1
         | None \<Rightarrow> m1)"

definition keysToRemove :: "NodeInfoMap \<Rightarrow> string list" where
  "keysToRemove m = map fst (filter (\<lambda>(key, nodeInfo). node nodeInfo = None) m)"

definition CreateNodeNameToInfoMap :: "Pod list \<Rightarrow> Node list \<Rightarrow> NodeInfoMap" where
  "CreateNodeNameToInfoMap pods nodes =
     (let m1 = foldl addPodToMap [] pods;
          m2 = foldl setNodeInMap m1 nodes
      in fold AList.delete (keysToRemove m2) m2)"

section \<open>Scheduler framework interface\<close>

text \<open>
  The scheduler framework is an external library: its plugins are supplied by
  configuration. The checker sees it through \<^verbatim>\<open>RunPreFilterPlugins\<close> and
  \<^verbatim>\<open>RunFilterPlugins\<close> only, so the framework is a record of these two functions
  and every property below holds for any framework.

  \<^verbatim>\<open>Status\<close>: a nil status has code \<open>Success\<close> and no reasons.
\<close>

datatype Code = Success | Error | UnschedulableCode | UnschedulableAndUnresolvable | Wait | Skip

record Status =
  code :: Code
  reasons :: "string list"

definition IsSuccess :: "Status \<Rightarrow> bool" where
  "IsSuccess s \<longleftrightarrow> code s = Success"

definition IsUnschedulable :: "Status \<Rightarrow> bool" where
  "IsUnschedulable s \<longleftrightarrow> code s = UnschedulableCode \<or> code s = UnschedulableAndUnresolvable"

fun Join :: "string list \<Rightarrow> string \<Rightarrow> string" where
  "Join [] sep = []"
| "Join [x] sep = x"
| "Join (x # y # ys) sep = x @ sep @ Join (y # ys) sep"

definition Message :: "Status \<Rightarrow> string" where
  "Message s = Join (reasons s) '', ''"

text \<open>
  \<^verbatim>\<open>CycleState\<close> is the per-evaluation store that the pre-filter plugins write and the
  filter plugins read. The shared lister the framework was built with is the checker's
  delegating lister, so both entry points also read the snapshot installed at the time
  of the call.
\<close>

type_synonym CycleState = "(string \<times> string) list"

definition NewCycleState :: CycleState where
  "NewCycleState = []"

type_synonym Snapshot = NodeInfoMap

record Framework =
  RunPreFilterPlugins :: "Snapshot \<Rightarrow> CycleState \<Rightarrow> Pod \<Rightarrow> Status \<times> CycleState"
  RunFilterPlugins :: "Snapshot \<Rightarrow> CycleState \<Rightarrow> Pod \<Rightarrow> NodeInfo \<Rightarrow> (string \<times> Status) list"

text \<open>
  \<^verbatim>\<open>RunFilterPlugins\<close> returns a Go map from plugin name to status; the list is that
  map in the order in which \<^verbatim>\<open>range\<close> visits it.
\<close>

section \<open>simulator: SchedulerBasedPredicateChecker\<close>

datatype PredicateErrorType = NotSchedulablePredicateError | InternalPredicateError

text \<open>
  The debug info is a closure \<^verbatim>\<open>func() string\<close>: either \<^verbatim>\<open>emptyString\<close> or the
  closure built for the taint plugin, which captures the node's taints.
\<close>

datatype DebugInfo = emptyString | TaintsOnNode "Taint list"

record PredicateError =
  errorType :: PredicateErrorType
  predicateName :: string
  errorMessage :: string
  errorReasons :: "string list"
  debugInfo :: DebugInfo

definition NewPredicateError ::
  "PredicateErrorType \<Rightarrow> string \<Rightarrow> string \<Rightarrow> string list \<Rightarrow> DebugInfo \<Rightarrow> PredicateError" where
  "NewPredicateError t name msg rs d =
     \<lparr>errorType = t, predicateName = name, errorMessage = msg, errorReasons = rs, debugInfo = d\<rparr>"

text \<open>A call either returns or dereferences a nil \<^verbatim>\<open>Node()\<close> and panics.\<close>

datatype 'a outcome = Returns 'a | NilPointerPanic

text \<open>The calls into the framework that an operation makes, in order.\<close>

datatype Call = PreFilter Pod | Filter Pod NodeInfo

record SchedulerBasedPredicateChecker =
  framework :: Framework
  delegatingSharedLister :: Snapshot

text \<open>
  Modelled from the spec: \<^verbatim>\<open>CreateNodeInfoMap\<close>, \<^verbatim>\<open>NewSnapshot\<close> and
  \<^verbatim>\<open>NewEmptySnapshot\<close> are not among the sources. A Cluster Snapshot is "a mapping
  from node identity to Aggregated Node State", "built fresh each control-loop cycle from
  current facts"; the constructor of that mapping in the sources is
  \<open>CreateNodeNameToInfoMap\<close>.
\<close>

definition CreateNodeInfoMap :: "Pod list \<Rightarrow> Node list \<Rightarrow> NodeInfoMap" where
  "CreateNodeInfoMap pods nodes = CreateNodeNameToInfoMap pods nodes"

definition NewSnapshot :: "NodeInfoMap \<Rightarrow> Snapshot" where
  "NewSnapshot nodeInfoMap = nodeInfoMap"

definition NewEmptySnapshot :: Snapshot where
  "NewEmptySnapshot = []"

definition UpdateDelegate ::
  "SchedulerBasedPredicateChecker \<Rightarrow> Snapshot \<Rightarrow> SchedulerBasedPredicateChecker" where
  "UpdateDelegate p delegate = p\<lparr>delegatingSharedLister := delegate\<rparr>"

text \<open>
  \<^verbatim>\<open>SnapshotClusterState\<close>: the two arguments are what \<^verbatim>\<open>nodeLister.List\<close> and
  \<^verbatim>\<open>podLister.List\<close> answer at the time of the call (\<open>Inl\<close> the error). The result
  is the returned error (\<open>None\<close> for nil) and the checker after the call.
\<close>

definition SnapshotClusterState ::
  "SchedulerBasedPredicateChecker \<Rightarrow> string + Node list \<Rightarrow> string + Pod list
     \<Rightarrow> string option \<times> SchedulerBasedPredicateChecker" where
  "SnapshotClusterState p nodeList podList =
     (case nodeList of
        Inl err \<Rightarrow> (Some (''could not list Nodes; '' @ err), p)
      | Inr nodes \<Rightarrow>
          (case podList of
             Inl err \<Rightarrow> (Some (''could not list Pods; '' @ err), p)
           | Inr pods \<Rightarrow>
               (let nodeInfoMap = CreateNodeInfoMap pods nodes;
                    newSnapshot = NewSnapshot nodeInfoMap
                in (None, UpdateDelegate p newSnapshot))))"

text \<open>The inner loop of \<^verbatim>\<open>FitsAny\<close>: \<open>ok\<close> after the statuses have been visited.\<close>

fun filtersOk :: "(string \<times> Status) list \<Rightarrow> bool" where
  "filtersOk [] = True"
| "filtersOk ((filterName, filterStatus) # rest) =
     (if \<not> IsSuccess filterStatus then False else filtersOk rest)"

text \<open>
  The loop of \<^verbatim>\<open>FitsAny\<close> over the candidate map, given as its entries in the order
  in which \<^verbatim>\<open>range\<close> visits them. The result is the returned pair (name, error) and
  the framework calls made.
\<close>

fun FitsAny_loop ::
  "SchedulerBasedPredicateChecker \<Rightarrow> CycleState \<Rightarrow> Pod \<Rightarrow> NodeInfoMap
     \<Rightarrow> (string \<times> string option) outcome \<times> Call list" where
  "FitsAny_loop p state pod [] =
     (Returns ([], Some (''cannot put pod '' @ Name (Pod_ObjectMeta pod) @ '' on any node'')), [])"
| "FitsAny_loop p state pod ((name, nodeInfo) # rest) =
     (case node nodeInfo of
        None \<Rightarrow> (NilPointerPanic, [])
      | Some n \<Rightarrow>
          if Unschedulable (Node_Spec n) then FitsAny_loop p state pod rest
          else
            (let filterStatuses =
                   RunFilterPlugins (framework p) (delegatingSharedLister p) state pod nodeInfo
             in if filtersOk filterStatuses then (Returns (name, None), [Filter pod nodeInfo])
                else (let (r, calls) = FitsAny_loop p state pod rest
                      in (r, Filter pod nodeInfo # calls))))"

definition FitsAny ::
  "SchedulerBasedPredicateChecker \<Rightarrow> Pod \<Rightarrow> NodeInfoMap
     \<Rightarrow> (string \<times> string option) outcome \<times> Call list" where
  "FitsAny p pod nodeInfos =
     (let (preFilterStatus, state) =
            RunPreFilterPlugins (framework p) (delegatingSharedLister p) NewCycleState pod
      in if \<not> IsSuccess preFilterStatus
         then (Returns ([], Some (''error running pre filter plugins for pod ''
                 @ Name (Pod_ObjectMeta pod) @ ''; '' @ Message preFilterStatus)),
               [PreFilter pod])
         else (let (r, calls) = FitsAny_loop p state pod nodeInfos
               in (r, PreFilter pod # calls)))"

definition buildDebugInfo :: "string \<Rightarrow> NodeInfo \<Rightarrow> DebugInfo outcome" where
  "buildDebugInfo filterName nodeInfo =
     (if filterName = ''TaintToleration''
      then (case node nodeInfo of
              None \<Rightarrow> NilPointerPanic
            | Some n \<Rightarrow> Returns (TaintsOnNode (Taints (Node_Spec n))))
      else Returns emptyString)"

text \<open>The loop of \<^verbatim>\<open>CheckPredicates\<close> over the filter statuses.\<close>

fun CheckPredicates_loop ::
  "NodeInfo \<Rightarrow> (string \<times> Status) list \<Rightarrow> PredicateError option outcome" where
  "CheckPredicates_loop nodeInfo [] = Returns None"
| "CheckPredicates_loop nodeInfo ((filterName, filterStatus) # rest) =
     (if \<not> IsSuccess filterStatus then
        (if IsUnschedulable filterStatus then
           (case buildDebugInfo filterName nodeInfo of
              NilPointerPanic \<Rightarrow> NilPointerPanic
            | Returns d \<Rightarrow>
                Returns (Some (NewPredicateError NotSchedulablePredicateError filterName
                  (Message filterStatus) (reasons filterStatus) d)))
         else
           (case buildDebugInfo filterName nodeInfo of
              NilPointerPanic \<Rightarrow> NilPointerPanic
            | Returns d \<Rightarrow>
                Returns (Some (NewPredicateError InternalPredicateError filterName
                  (Message filterStatus) (reasons filterStatus) d))))
      else CheckPredicates_loop nodeInfo rest)"

definition CheckPredicates ::
  "SchedulerBasedPredicateChecker \<Rightarrow> Pod \<Rightarrow> NodeInfo
     \<Rightarrow> PredicateError option outcome \<times> Call list" where
  "CheckPredicates p pod nodeInfo =
     (let (preFilterStatus, state) =
            RunPreFilterPlugins (framework p) (delegatingSharedLister p) NewCycleState pod
      in if \<not> IsSuccess preFilterStatus
         then (Returns (Some (NewPredicateError InternalPredicateError []
                 (Message preFilterStatus) (reasons preFilterStatus) emptyString)),
               [PreFilter pod])
         else (let filterStatuses =
                     RunFilterPlugins (framework p) (delegatingSharedLister p) state pod nodeInfo
               in (CheckPredicates_loop nodeInfo filterStatuses,
                   [PreFilter pod, Filter pod nodeInfo])))"

section \<open>daemonset: GetDaemonSetPodsForNode\<close>

record PodTemplateSpec =
  Template_ObjectMeta :: ObjectMeta
  Template_Spec :: PodSpec

record DaemonSetSpec =
  Template :: PodTemplateSpec

record DaemonSet =
  DaemonSet_ObjectMeta :: ObjectMeta
  DaemonSet_Spec :: DaemonSetSpec

text \<open>The verb \<^verbatim>\<open>%d\<close> on a non-negative integer: its decimal digits.\<close>

definition digit :: "nat \<Rightarrow> char" where
  "digit d = char_of (48 + d)"

fun decimal :: "nat \<Rightarrow> string" where
  "decimal n = (if n < 10 then [digit n] else decimal (n div 10) @ [digit (n mod 10)])"

declare decimal.simps [simp del]

text \<open>
  \<^verbatim>\<open>rand.Int63\<close> reads and advances the process-wide random source. The source is a
  state \<open>'g\<close> with the function \<open>Int63\<close> that yields the next value (a non-negative
  63-bit integer) and the next state.
\<close>

definition newPod :: "('g \<Rightarrow> nat \<times> 'g) \<Rightarrow> DaemonSet \<Rightarrow> string \<Rightarrow> 'g \<Rightarrow> Pod \<times> 'g" where
  "newPod Int63 ds nodeName g =
     (let (r, g') = Int63 g;
          newPod = \<lparr>Pod_ObjectMeta = Template_ObjectMeta (Template (DaemonSet_Spec ds)),
                    Pod_Spec = Template_Spec (Template (DaemonSet_Spec ds)),
                    Pod_Status = \<lparr>NominatedNodeName = []\<rparr>\<rparr>;
          newPod = newPod\<lparr>Pod_ObjectMeta :=
                     (Pod_ObjectMeta newPod)\<lparr>Namespace := Namespace (DaemonSet_ObjectMeta ds)\<rparr>\<rparr>;
          newPod = newPod\<lparr>Pod_ObjectMeta :=
                     (Pod_ObjectMeta newPod)\<lparr>Name :=
                        Name (DaemonSet_ObjectMeta ds) @ ''-pod-'' @ decimal r\<rparr>\<rparr>;
          newPod = newPod\<lparr>Pod_Spec := (Pod_Spec newPod)\<lparr>NodeName := nodeName\<rparr>\<rparr>
      in (newPod, g'))"

text \<open>
  The parts of the simulator package that \<^verbatim>\<open>GetDaemonSetPodsForNode\<close> calls and that
  are not among the sources are parameters: \<open>AddNodeWithPods\<close> on a new basic cluster
  snapshot, \<open>FakeNodeInfoForNodeName\<close>, and the \<^verbatim>\<open>PredicateChecker\<close> interface value,
  whose \<^verbatim>\<open>CheckPredicates\<close> takes the snapshot, the pod and the node info and returns
  nil (\<open>None\<close>) when the pod fits. \<open>AddNodeWithPods\<close> receives \<^verbatim>\<open>nodeInfo.Node()\<close> as it
  is, nil or not, and returns its error (\<open>Inl\<close>) or the snapshot after it (\<open>Inr\<close>), unless
  it panics.
\<close>

record ('s, 'g) Simulator =
  AddNodeWithPods :: "Node option \<Rightarrow> Pod list \<Rightarrow> (string + 's) outcome"
  FakeNodeInfoForNodeName :: "string \<Rightarrow> NodeInfo"
  Int63 :: "'g \<Rightarrow> nat \<times> 'g"

text \<open>
  The loop over the daemonsets. Each iteration reads \<^verbatim>\<open>nodeInfo.Node().Name\<close>, which
  panics on a nil node, before it calls \<open>newPod\<close>.
\<close>

fun GetDaemonSetPodsForNode_loop ::
  "('s, 'g) Simulator \<Rightarrow> ('s \<Rightarrow> Pod \<Rightarrow> NodeInfo \<Rightarrow> PredicateError option) \<Rightarrow> 's \<Rightarrow> NodeInfo
     \<Rightarrow> DaemonSet list \<Rightarrow> Pod list \<Rightarrow> 'g \<Rightarrow> Pod list outcome \<times> 'g" where
  "GetDaemonSetPodsForNode_loop sim predicateChecker clusterSnapshot nodeInfo [] result g =
     (Returns result, g)"
| "GetDaemonSetPodsForNode_loop sim predicateChecker clusterSnapshot nodeInfo (ds # rest) result g =
     (case node nodeInfo of
        None \<Rightarrow> (NilPointerPanic, g)
      | Some n \<Rightarrow>
          (let (pod, g') = newPod (Int63 sim) ds (Name (Node_ObjectMeta n)) g
           in if predicateChecker clusterSnapshot pod
                   (FakeNodeInfoForNodeName sim (Name (Node_ObjectMeta n))) = None
              then GetDaemonSetPodsForNode_loop sim predicateChecker clusterSnapshot nodeInfo rest
                     (result @ [pod]) g'
              else GetDaemonSetPodsForNode_loop sim predicateChecker clusterSnapshot nodeInfo rest
                     result g'))"

definition GetDaemonSetPodsForNode ::
  "('s, 'g) Simulator \<Rightarrow> NodeInfo \<Rightarrow> DaemonSet list
     \<Rightarrow> ('s \<Rightarrow> Pod \<Rightarrow> NodeInfo \<Rightarrow> PredicateError option) \<Rightarrow> 'g
     \<Rightarrow> (string + Pod list) outcome \<times> 'g" where
  "GetDaemonSetPodsForNode sim nodeInfo daemonsets predicateChecker g =
     (case AddNodeWithPods sim (node nodeInfo) (Pods nodeInfo) of
        NilPointerPanic \<Rightarrow> (NilPointerPanic, g)
      | Returns (Inl err) \<Rightarrow> (Returns (Inl err), g)
      | Returns (Inr clusterSnapshot) \<Rightarrow>
          (case GetDaemonSetPodsForNode_loop sim predicateChecker clusterSnapshot nodeInfo
                  daemonsets [] g of
             (NilPointerPanic, g') \<Rightarrow> (NilPointerPanic, g')
           | (Returns result, g') \<Rightarrow> (Returns (Inr result), g')))"

section \<open>Auxiliary notions for the statements\<close>

text \<open>The key under which the snapshot constructor files a pod.\<close>

definition podNodeName :: "Pod \<Rightarrow> string" where
  "podNodeName pod =
     (if NodeName (Pod_Spec pod) = [] then NominatedNodeName (Pod_Status pod)
      else NodeName (Pod_Spec pod))"

definition entryOr :: "NodeInfoMap \<Rightarrow> string \<Rightarrow> NodeInfo" where
  "entryOr m k = (case map_of m k of None \<Rightarrow> NewNodeInfo | Some ni \<Rightarrow> ni)"

text \<open>A node info whose node is present and not marked unschedulable.\<close>

definition schedulable :: "NodeInfo \<Rightarrow> bool" where
  "schedulable ni = (case node ni of None \<Rightarrow> False | Some n \<Rightarrow> \<not> Unschedulable (Node_Spec n))"

text \<open>The cycle state that the pre-filter stage leaves, and its status.\<close>

definition preFilterStatus :: "SchedulerBasedPredicateChecker \<Rightarrow> Pod \<Rightarrow> Status" where
  "preFilterStatus p pod =
     fst (RunPreFilterPlugins (framework p) (delegatingSharedLister p) NewCycleState pod)"

definition preFilterState :: "SchedulerBasedPredicateChecker \<Rightarrow> Pod \<Rightarrow> CycleState" where
  "preFilterState p pod =
     snd (RunPreFilterPlugins (framework p) (delegatingSharedLister p) NewCycleState pod)"

definition filterStatusesFor ::
  "SchedulerBasedPredicateChecker \<Rightarrow> Pod \<Rightarrow> NodeInfo \<Rightarrow> (string \<times> Status) list" where
  "filterStatusesFor p pod ni =
     RunFilterPlugins (framework p) (delegatingSharedLister p) (preFilterState p pod) pod ni"

text \<open>The pods that the successive \<open>newPod\<close> calls build for a list of daemonsets.\<close>

fun synthesized :: "('g \<Rightarrow> nat \<times> 'g) \<Rightarrow> string \<Rightarrow> DaemonSet list \<Rightarrow> 'g \<Rightarrow> Pod list" where
  "synthesized I nodeName [] g = []"
| "synthesized I nodeName (ds # rest) g =
     (let (pod, g') = newPod I ds nodeName g in pod # synthesized I nodeName rest g')"

text \<open>The first \<open>k\<close> values that the random source yields from the state \<open>g\<close> on.\<close>

fun draws :: "('g \<Rightarrow> nat \<times> 'g) \<Rightarrow> 'g \<Rightarrow> nat \<Rightarrow> nat list" where
  "draws I g 0 = []"
| "draws I g (Suc k) = (let (r, g') = I g in r # draws I g' k)"

section \<open>Example clusters\<close>

text \<open>Concrete nodes, pods and frameworks on which the statements below are evaluated.\<close>


definition ex_node_n1 :: Node where
  "ex_node_n1 = \<lparr>Node_ObjectMeta = \<lparr>Name = ''n1'', Namespace = [], Labels = []\<rparr>,
                 Node_Spec = \<lparr>Unschedulable = False, Taints = []\<rparr>\<rparr>"

definition ex_pod_nominated :: Pod where
  "ex_pod_nominated = \<lparr>Pod_ObjectMeta = \<lparr>Name = ''waiting'', Namespace = ''default'', Labels = []\<rparr>,
                       Pod_Spec = \<lparr>NodeName = [], Tolerations = [], HostPorts = []\<rparr>,
                       Pod_Status = \<lparr>NominatedNodeName = ''n1''\<rparr>\<rparr>"

definition ex_pod_orphan :: Pod where
  "ex_pod_orphan = \<lparr>Pod_ObjectMeta = \<lparr>Name = ''lost'', Namespace = ''default'', Labels = []\<rparr>,
                    Pod_Spec = \<lparr>NodeName = ''gone'', Tolerations = [], HostPorts = []\<rparr>,
                    Pod_Status = \<lparr>NominatedNodeName = []\<rparr>\<rparr>"


definition ex_node_cordoned :: Node where
  "ex_node_cordoned = \<lparr>Node_ObjectMeta = \<lparr>Name = ''n2'', Namespace = [], Labels = []\<rparr>,
                       Node_Spec = \<lparr>Unschedulable = True, Taints = []\<rparr>\<rparr>"

definition ex_node_tainted :: Node where
  "ex_node_tainted = \<lparr>Node_ObjectMeta = \<lparr>Name = ''n3'', Namespace = [], Labels = []\<rparr>,
                      Node_Spec = \<lparr>Unschedulable = False,
                        Taints = [\<lparr>Key = ''dedicated'', Value = ''gpu'', Effect = ''NoSchedule''\<rparr>]\<rparr>\<rparr>"

definition ex_pod_web :: Pod where
  "ex_pod_web = \<lparr>Pod_ObjectMeta = \<lparr>Name = ''web'', Namespace = ''default'', Labels = []\<rparr>,
                 Pod_Spec = \<lparr>NodeName = [], Tolerations = [], HostPorts = []\<rparr>,
                 Pod_Status = \<lparr>NominatedNodeName = []\<rparr>\<rparr>"

definition ex_info :: "Node \<Rightarrow> NodeInfo" where
  "ex_info n = \<lparr>node = Some n, Pods = []\<rparr>"

text \<open>A framework with no plugin that rejects.\<close>

definition ex_framework_accept :: Framework where
  "ex_framework_accept =
     \<lparr>RunPreFilterPlugins = (\<lambda>snapshot state pod. (\<lparr>code = Success, reasons = []\<rparr>, state)),
      RunFilterPlugins = (\<lambda>snapshot state pod nodeInfo. [])\<rparr>"

text \<open>A framework whose pre-filter stage rejects every pod.\<close>

definition ex_framework_prereject :: Framework where
  "ex_framework_prereject =
     \<lparr>RunPreFilterPlugins =
        (\<lambda>snapshot state pod. (\<lparr>code = UnschedulableCode, reasons = [''bad affinity'']\<rparr>, state)),
      RunFilterPlugins = (\<lambda>snapshot state pod nodeInfo. [])\<rparr>"

text \<open>A framework whose only filter rejects a pod without tolerations on a tainted node.\<close>

definition ex_framework_taints :: Framework where
  "ex_framework_taints =
     \<lparr>RunPreFilterPlugins = (\<lambda>snapshot state pod. (\<lparr>code = Success, reasons = []\<rparr>, state)),
      RunFilterPlugins = (\<lambda>snapshot state pod nodeInfo.
        case node nodeInfo of
          None \<Rightarrow> [(''NodeName'', \<lparr>code = Error, reasons = [''node not found'']\<rparr>)]
        | Some n \<Rightarrow>
            if Taints (Node_Spec n) \<noteq> [] \<and> Tolerations (Pod_Spec pod) = []
            then [(''TaintToleration'',
                   \<lparr>code = UnschedulableAndUnresolvable, reasons = [''untolerated taint'']\<rparr>)]
            else [])\<rparr>"

definition ex_checker :: "Framework \<Rightarrow> SchedulerBasedPredicateChecker" where
  "ex_checker fw = \<lparr>framework = fw, delegatingSharedLister = NewEmptySnapshot\<rparr>"


definition ex_daemonset_logger :: DaemonSet where
  "ex_daemonset_logger =
     \<lparr>DaemonSet_ObjectMeta = \<lparr>Name = ''logger'', Namespace = ''kube-system'', Labels = []\<rparr>,
      DaemonSet_Spec = \<lparr>Template =
        \<lparr>Template_ObjectMeta = \<lparr>Name = [], Namespace = [], Labels = [(''app'', ''logger'')]\<rparr>,
         Template_Spec = \<lparr>NodeName = [], Tolerations = [], HostPorts = []\<rparr>\<rparr>\<rparr>\<rparr>"

definition ex_daemonset_driver :: DaemonSet where
  "ex_daemonset_driver =
     \<lparr>DaemonSet_ObjectMeta = \<lparr>Name = ''driver'', Namespace = ''gpu'', Labels = []\<rparr>,
      DaemonSet_Spec = \<lparr>Template =
        \<lparr>Template_ObjectMeta = \<lparr>Name = [], Namespace = [], Labels = [(''app'', ''driver'')]\<rparr>,
         Template_Spec = \<lparr>NodeName = [], Tolerations = [''dedicated''], HostPorts = []\<rparr>\<rparr>\<rparr>\<rparr>"

text \<open>A random source given by the values it yields next.\<close>

definition ex_Int63 :: "nat list \<Rightarrow> nat \<times> nat list" where
  "ex_Int63 g = (case g of [] \<Rightarrow> (0, []) | r # rest \<Rightarrow> (r, rest))"

text \<open>
  A simulator over snapshots that are node info maps, and a predicate checker that
  rejects a pod without tolerations on a tainted node.
\<close>

definition ex_simulator :: "(Snapshot, nat list) Simulator" where
  "ex_simulator =
     \<lparr>AddNodeWithPods = (\<lambda>nodeOpt pods.
        case nodeOpt of
          None \<Rightarrow> NilPointerPanic
        | Some n \<Rightarrow> Returns (Inr [(Name (Node_ObjectMeta n), \<lparr>node = Some n, Pods = pods\<rparr>)])),
      FakeNodeInfoForNodeName = (\<lambda>nodeName.
        \<lparr>node = Some \<lparr>Node_ObjectMeta = \<lparr>Name = nodeName, Namespace = [], Labels = []\<rparr>,
                       Node_Spec = \<lparr>Unschedulable = False, Taints = []\<rparr>\<rparr>,
         Pods = []\<rparr>),
      Int63 = ex_Int63\<rparr>"

definition ex_predicateChecker :: "Snapshot \<Rightarrow> Pod \<Rightarrow> NodeInfo \<Rightarrow> PredicateError option" where
  "ex_predicateChecker snapshot pod nodeInfo =
     (case node nodeInfo of
        None \<Rightarrow> Some (NewPredicateError InternalPredicateError [] ''no node'' [] emptyString)
      | Some fake \<Rightarrow>
          (case map_of snapshot (Name (Node_ObjectMeta fake)) of
             None \<Rightarrow> Some (NewPredicateError InternalPredicateError [] ''node not found'' [] emptyString)
           | Some info \<Rightarrow>
               (case node info of
                  None \<Rightarrow> Some (NewPredicateError InternalPredicateError [] ''no node'' [] emptyString)
                | Some n \<Rightarrow>
                    if Taints (Node_Spec n) \<noteq> [] \<and> Tolerations (Pod_Spec pod) = []
                    then Some (NewPredicateError NotSchedulablePredicateError ''TaintToleration''
                                 ''untolerated taint'' [''untolerated taint''] emptyString)
                    else None)))"

section \<open>Properties of CreateNodeNameToInfoMap\<close>

lemma map_of_addPodToMap:
  "map_of (addPodToMap m pod) =
     (let k = (if NodeName (Pod_Spec pod) = '''' then NominatedNodeName (Pod_Status pod)
               else NodeName (Pod_Spec pod))
      in (map_of m)(k \<mapsto> AddPod (case map_of m k of None \<Rightarrow> NewNodeInfo | Some ni \<Rightarrow> ni) pod))"
  by (auto simp: addPodToMap_def Let_def update_conv' split: option.splits)

lemma map_of_setNodeInMap:
  "map_of (setNodeInMap m n) =
     (map_of m)(Name (Node_ObjectMeta n) \<mapsto>
        SetNode (case map_of m (Name (Node_ObjectMeta n)) of None \<Rightarrow> NewNodeInfo | Some ni \<Rightarrow> ni) n)"
  by (auto simp: setNodeInMap_def Let_def update_conv' split: option.splits)

lemma map_of_fold_delete:
  "map_of (fold AList.delete ks m) k = (if k \<in> set ks then None else map_of m k)"
  by (induction ks arbitrary: m) (auto simp: delete_conv')

lemma keysToRemove_iff:
  "k \<in> set (keysToRemove m) \<longleftrightarrow> (\<exists>ni. (k, ni) \<in> set m \<and> node ni = None)"
  by (auto simp: keysToRemove_def image_iff)

lemma map_of_addPodToMap':
  "map_of (addPodToMap m pod) = (map_of m)(podNodeName pod \<mapsto> AddPod (entryOr m (podNodeName pod)) pod)"
  by (simp add: map_of_addPodToMap podNodeName_def entryOr_def Let_def)

lemma map_of_foldl_addPod:
  "map_of (foldl addPodToMap m pods) k =
     (if filter (\<lambda>p. podNodeName p = k) pods = [] then map_of m k
      else Some ((entryOr m k)\<lparr>Pods := Pods (entryOr m k) @ filter (\<lambda>p. podNodeName p = k) pods\<rparr>))"
proof (induction pods rule: rev_induct)
  case Nil
  then show ?case by simp
next
  case (snoc p ps)
  show ?case
    using snoc.IH
    by (auto simp: map_of_addPodToMap' entryOr_def AddPod_def)
qed

lemma map_of_foldl_setNode:
  "map_of (foldl setNodeInMap m nodes) k =
     (if filter (\<lambda>n. Name (Node_ObjectMeta n) = k) nodes = [] then map_of m k
      else Some ((entryOr m k)\<lparr>node := Some (last (filter (\<lambda>n. Name (Node_ObjectMeta n) = k) nodes))\<rparr>))"
proof (induction nodes rule: rev_induct)
  case Nil
  then show ?case by simp
next
  case (snoc n ns)
  show ?case
    using snoc.IH
    by (auto simp: map_of_setNodeInMap entryOr_def SetNode_def)
qed

lemma distinct_addPodToMap: "distinct (map fst m) \<Longrightarrow> distinct (map fst (addPodToMap m pod))"
  by (auto simp: addPodToMap_def Let_def distinct_update split: option.splits)

lemma distinct_setNodeInMap: "distinct (map fst m) \<Longrightarrow> distinct (map fst (setNodeInMap m n))"
  by (auto simp: setNodeInMap_def Let_def distinct_update split: option.splits)

lemma distinct_foldl_addPod: "distinct (map fst m) \<Longrightarrow> distinct (map fst (foldl addPodToMap m pods))"
  by (induction pods arbitrary: m) (auto simp: distinct_addPodToMap)

lemma distinct_foldl_setNode: "distinct (map fst m) \<Longrightarrow> distinct (map fst (foldl setNodeInMap m nodes))"
  by (induction nodes arbitrary: m) (auto simp: distinct_setNodeInMap)

lemma distinct_fold_delete: "distinct (map fst m) \<Longrightarrow> distinct (map fst (fold AList.delete ks m))"
  by (induction ks arbitrary: m) (auto simp: distinct_delete)

lemma keysToRemove_map_of:
  "distinct (map fst m) \<Longrightarrow> k \<in> set (keysToRemove m) \<longleftrightarrow> (\<exists>ni. map_of m k = Some ni \<and> node ni = None)"
  by (auto simp: keysToRemove_iff)

lemma distinct_CreateNodeNameToInfoMap: "distinct (map fst (CreateNodeNameToInfoMap pods nodes))"
  by (simp add: CreateNodeNameToInfoMap_def Let_def distinct_fold_delete
        distinct_foldl_addPod distinct_foldl_setNode)

lemma map_of_CreateNodeNameToInfoMap:
  "map_of (CreateNodeNameToInfoMap pods nodes) k =
     (if filter (\<lambda>n. Name (Node_ObjectMeta n) = k) nodes = [] then None
      else Some \<lparr>node = Some (last (filter (\<lambda>n. Name (Node_ObjectMeta n) = k) nodes)),
                 Pods = filter (\<lambda>p. podNodeName p = k) pods\<rparr>)"
proof -
  let ?m1 = "foldl addPodToMap [] pods"
  let ?m2 = "foldl setNodeInMap ?m1 nodes"
  have d: "distinct (map fst ?m2)"
    by (simp add: distinct_foldl_addPod distinct_foldl_setNode)
  have m1: "map_of ?m1 k = (if filter (\<lambda>p. podNodeName p = k) pods = [] then None
      else Some \<lparr>node = None, Pods = filter (\<lambda>p. podNodeName p = k) pods\<rparr>)"
    by (simp add: map_of_foldl_addPod entryOr_def NewNodeInfo_def)
  show ?thesis
    unfolding CreateNodeNameToInfoMap_def Let_def
    by (simp add: map_of_fold_delete keysToRemove_map_of [OF d] map_of_foldl_setNode m1 entryOr_def NewNodeInfo_def)
qed

lemma filter_name_nonempty:
  "n \<in> set nodes \<Longrightarrow> filter (\<lambda>x. Name (Node_ObjectMeta x) = Name (Node_ObjectMeta n)) nodes \<noteq> []"
  by (auto simp: filter_empty_conv)

lemma last_filter_name:
  "filter (\<lambda>x. Name (Node_ObjectMeta x) = k) nodes \<noteq> [] \<Longrightarrow>
   last (filter (\<lambda>x. Name (Node_ObjectMeta x) = k) nodes) \<in> set nodes \<and>
   Name (Node_ObjectMeta (last (filter (\<lambda>x. Name (Node_ObjectMeta x) = k) nodes))) = k"
  using last_in_set [of "filter (\<lambda>x. Name (Node_ObjectMeta x) = k) nodes"] by auto

lemma entry_CreateNodeNameToInfoMap:
  assumes "(k, ni) \<in> set (CreateNodeNameToInfoMap pods nodes)"
  shows "node ni \<noteq> None \<and> Pods ni = filter (\<lambda>p. podNodeName p = k) pods
         \<and> k \<in> (\<lambda>n. Name (Node_ObjectMeta n)) ` set nodes"
proof -
  from assms have m: "map_of (CreateNodeNameToInfoMap pods nodes) k = Some ni"
    by (simp add: distinct_CreateNodeNameToInfoMap)
  then have ne: "filter (\<lambda>n. Name (Node_ObjectMeta n) = k) nodes \<noteq> []"
    by (auto simp: map_of_CreateNodeNameToInfoMap split: if_splits)
  from last_filter_name [OF ne] have "k \<in> (\<lambda>n. Name (Node_ObjectMeta n)) ` set nodes"
    by (metis image_eqI)
  with m ne show ?thesis
    by (auto simp: map_of_CreateNodeNameToInfoMap)
qed

text \<open>
  Claim C2. The map built by \<open>CreateNodeNameToInfoMap\<close> has, for every input node, an
  entry under the node's name whose \<^verbatim>\<open>Node\<close> is set (to an input node of that name); no
  entry of the map has a nil \<^verbatim>\<open>Node\<close>; the pods of an entry are the input pods filed
  under its key, in input order; and a pod filed under a name that is the name of no
  input node is dropped: its key is not in the map and it is among the pods of no entry.
\<close>

theorem snapshot_entries_have_nodes:
  "(\<forall>n \<in> set nodes. \<exists>ni nd. map_of (CreateNodeNameToInfoMap pods nodes) (Name (Node_ObjectMeta n)) = Some ni
        \<and> node ni = Some nd \<and> nd \<in> set nodes \<and> Name (Node_ObjectMeta nd) = Name (Node_ObjectMeta n))
   \<and> (\<forall>(k, ni) \<in> set (CreateNodeNameToInfoMap pods nodes). node ni \<noteq> None)
   \<and> (\<forall>(k, ni) \<in> set (CreateNodeNameToInfoMap pods nodes).
         Pods ni = filter (\<lambda>p. podNodeName p = k) pods)
   \<and> (\<forall>pod \<in> set pods. podNodeName pod \<notin> (\<lambda>n. Name (Node_ObjectMeta n)) ` set nodes \<longrightarrow>
         podNodeName pod \<notin> fst ` set (CreateNodeNameToInfoMap pods nodes)
         \<and> (\<forall>(k, ni) \<in> set (CreateNodeNameToInfoMap pods nodes). pod \<notin> set (Pods ni)))"
proof (intro conjI ballI impI)
  fix n assume "n \<in> set nodes"
  then show "\<exists>ni nd. map_of (CreateNodeNameToInfoMap pods nodes) (Name (Node_ObjectMeta n)) = Some ni
        \<and> node ni = Some nd \<and> nd \<in> set nodes \<and> Name (Node_ObjectMeta nd) = Name (Node_ObjectMeta n)"
    using filter_name_nonempty [of n nodes] last_filter_name [of "Name (Node_ObjectMeta n)" nodes]
    by (simp add: map_of_CreateNodeNameToInfoMap)
next
  fix e assume e: "e \<in> set (CreateNodeNameToInfoMap pods nodes)"
  obtain k ni where kn: "e = (k, ni)" by (cases e)
  from entry_CreateNodeNameToInfoMap [of k ni pods nodes] e kn
  show "case e of (k, ni) \<Rightarrow> node ni \<noteq> None" by simp
next
  fix e assume e: "e \<in> set (CreateNodeNameToInfoMap pods nodes)"
  obtain k ni where kn: "e = (k, ni)" by (cases e)
  from entry_CreateNodeNameToInfoMap [of k ni pods nodes] e kn
  show "case e of (k, ni) \<Rightarrow> Pods ni = filter (\<lambda>p. podNodeName p = k) pods" by simp
next
  fix pod assume "pod \<in> set pods"
    and out: "podNodeName pod \<notin> (\<lambda>n. Name (Node_ObjectMeta n)) ` set nodes"
  from out have "\<forall>x \<in> set nodes. Name (Node_ObjectMeta x) \<noteq> podNodeName pod"
    by (metis image_eqI)
  then have "filter (\<lambda>n. Name (Node_ObjectMeta n) = podNodeName pod) nodes = []"
    by (simp add: filter_empty_conv)
  then have "map_of (CreateNodeNameToInfoMap pods nodes) (podNodeName pod) = None"
    by (simp add: map_of_CreateNodeNameToInfoMap)
  then show "podNodeName pod \<notin> fst ` set (CreateNodeNameToInfoMap pods nodes)"
    by (simp add: map_of_eq_None_iff)
next
  fix pod e assume "pod \<in> set pods"
    and out: "podNodeName pod \<notin> (\<lambda>n. Name (Node_ObjectMeta n)) ` set nodes"
    and e: "e \<in> set (CreateNodeNameToInfoMap pods nodes)"
  obtain k ni where kn: "e = (k, ni)" by (cases e)
  from entry_CreateNodeNameToInfoMap [of k ni pods nodes] e kn
  have "Pods ni = filter (\<lambda>p. podNodeName p = k) pods"
    and "k \<in> (\<lambda>n. Name (Node_ObjectMeta n)) ` set nodes"
    by simp_all
  with out have "pod \<notin> set (Pods ni)" by auto
  with kn show "case e of (k, ni) \<Rightarrow> pod \<notin> set (Pods ni)" by simp
qed

theorem snapshot_entries_have_nodes_witness:
  "(\<exists>ni. map_of (CreateNodeNameToInfoMap [ex_pod_orphan, ex_pod_nominated] [ex_node_n1]) ''n1'' = Some ni
        \<and> node ni = Some ex_node_n1)
   \<and> ''gone'' \<notin> fst ` set (CreateNodeNameToInfoMap [ex_pod_orphan, ex_pod_nominated] [ex_node_n1])
   \<and> ex_pod_orphan \<notin> set (concat (map (\<lambda>(k, ni). Pods ni)
         (CreateNodeNameToInfoMap [ex_pod_orphan, ex_pod_nominated] [ex_node_n1])))
   \<and> CreateNodeNameToInfoMap [ex_pod_orphan, ex_pod_nominated] [ex_node_n1]
       = [(''n1'', \<lparr>node = Some ex_node_n1, Pods = [ex_pod_nominated]\<rparr>)]"
proof -
  let ?m = "CreateNodeNameToInfoMap [ex_pod_orphan, ex_pod_nominated] [ex_node_n1]"
  note T = snapshot_entries_have_nodes [of "[ex_node_n1]" "[ex_pod_orphan, ex_pod_nominated]"]
  have k: "podNodeName ex_pod_orphan = ''gone''"
    by (simp add: podNodeName_def ex_pod_orphan_def)
  have n: "Name (Node_ObjectMeta ex_node_n1) = ''n1''"
    by (simp add: ex_node_n1_def)
  have v: "?m = [(''n1'', \<lparr>node = Some ex_node_n1, Pods = [ex_pod_nominated]\<rparr>)]"
    by code_simp
  from T have "\<forall>x \<in> set [ex_node_n1]. \<exists>ni nd. map_of ?m (Name (Node_ObjectMeta x)) = Some ni
        \<and> node ni = Some nd \<and> nd \<in> set [ex_node_n1] \<and> Name (Node_ObjectMeta nd) = Name (Node_ObjectMeta x)"
    by (rule conjunct1)
  then have a: "\<exists>ni. map_of ?m ''n1'' = Some ni \<and> node ni = Some ex_node_n1"
    by (auto simp: n)
  have o: "ex_pod_orphan \<in> set [ex_pod_orphan, ex_pod_nominated]" by simp
  have out: "podNodeName ex_pod_orphan \<notin> (\<lambda>x. Name (Node_ObjectMeta x)) ` set [ex_node_n1]"
    unfolding k by (simp add: n)
  from T [THEN conjunct2, THEN conjunct2, THEN conjunct2]
  have "\<forall>pod \<in> set [ex_pod_orphan, ex_pod_nominated].
         podNodeName pod \<notin> (\<lambda>n. Name (Node_ObjectMeta n)) ` set [ex_node_n1] \<longrightarrow>
         podNodeName pod \<notin> fst ` set ?m \<and> (\<forall>(k, ni) \<in> set ?m. pod \<notin> set (Pods ni))"
    .
  with o out have "podNodeName ex_pod_orphan \<notin> fst ` set ?m
      \<and> (\<forall>(k, ni) \<in> set ?m. ex_pod_orphan \<notin> set (Pods ni))"
    by blast
  then have c: "''gone'' \<notin> fst ` set ?m" and d: "\<forall>(k, ni) \<in> set ?m. ex_pod_orphan \<notin> set (Pods ni)"
    unfolding k by blast+
  from d have e: "ex_pod_orphan \<notin> set (concat (map (\<lambda>(k, ni). Pods ni) ?m))"
    by auto
  from a c e v show ?thesis by blast
qed

text \<open>
  Claim C9. A pod with an empty node name and a non-empty nominated node name is among
  the pods of the entry of its nominated node, when a node of that name is in the input.
\<close>

theorem nominated_pod_assigned:
  assumes "pod \<in> set pods"
    and "NodeName (Pod_Spec pod) = []"
    and "NominatedNodeName (Pod_Status pod) \<noteq> []"
    and "n \<in> set nodes"
    and "Name (Node_ObjectMeta n) = NominatedNodeName (Pod_Status pod)"
  shows "\<exists>ni. map_of (CreateNodeNameToInfoMap pods nodes) (NominatedNodeName (Pod_Status pod)) = Some ni
           \<and> node ni \<noteq> None \<and> pod \<in> set (Pods ni)"
proof -
  have k: "podNodeName pod = NominatedNodeName (Pod_Status pod)"
    using assms(2) by (simp add: podNodeName_def)
  have "filter (\<lambda>x. Name (Node_ObjectMeta x) = NominatedNodeName (Pod_Status pod)) nodes \<noteq> []"
    using filter_name_nonempty [OF assms(4)] assms(5) by simp
  then show ?thesis
    using assms(1) k by (simp add: map_of_CreateNodeNameToInfoMap)
qed

theorem nominated_pod_assigned_witness:
  "\<exists>ni. map_of (CreateNodeNameToInfoMap [ex_pod_orphan, ex_pod_nominated] [ex_node_n1]) ''n1'' = Some ni
           \<and> node ni \<noteq> None \<and> ex_pod_nominated \<in> set (Pods ni)"
  using nominated_pod_assigned [of ex_pod_nominated "[ex_pod_orphan, ex_pod_nominated]" ex_node_n1 "[ex_node_n1]"]
  by (simp add: ex_node_n1_def ex_pod_nominated_def)

section \<open>Properties of the predicate checker\<close>

lemma filtersOk_iff: "filtersOk fs \<longleftrightarrow> (\<forall>(f, s) \<in> set fs. IsSuccess s)"
  by (induction fs rule: filtersOk.induct) auto

lemma CheckPredicates_loop_fits:
  "CheckPredicates_loop ni fs = Returns None \<longleftrightarrow> filtersOk fs"
  by (induction ni fs rule: CheckPredicates_loop.induct)
     (auto split: outcome.splits)

lemma CheckPredicates_loop_debug:
  "CheckPredicates_loop ni fs = Returns (Some e) \<Longrightarrow>
     (if predicateName e = ''TaintToleration''
      then \<exists>n. node ni = Some n \<and> debugInfo e = TaintsOnNode (Taints (Node_Spec n))
      else debugInfo e = emptyString)"
proof (induction ni fs rule: CheckPredicates_loop.induct)
  case (1 nodeInfo)
  then show ?case by simp
next
  case (2 nodeInfo filterName filterStatus rest)
  show ?case
  proof (cases "IsSuccess filterStatus")
    case True
    with 2 show ?thesis by simp
  next
    case False
    with "2.prems" show ?thesis
      by (auto simp: buildDebugInfo_def NewPredicateError_def
               split: if_splits outcome.splits option.splits)
  qed
qed

lemma CheckPredicates_unfold:
  "CheckPredicates p pod ni =
     (if \<not> IsSuccess (preFilterStatus p pod)
      then (Returns (Some (NewPredicateError InternalPredicateError []
                 (Message (preFilterStatus p pod)) (reasons (preFilterStatus p pod)) emptyString)),
            [PreFilter pod])
      else (CheckPredicates_loop ni (filterStatusesFor p pod ni), [PreFilter pod, Filter pod ni]))"
  by (simp add: CheckPredicates_def preFilterStatus_def preFilterState_def filterStatusesFor_def
        Let_def split: prod.splits)

lemma FitsAny_unfold:
  "FitsAny p pod nis =
     (if \<not> IsSuccess (preFilterStatus p pod)
      then (Returns ([], Some (''error running pre filter plugins for pod ''
                 @ Name (Pod_ObjectMeta pod) @ ''; '' @ Message (preFilterStatus p pod))),
            [PreFilter pod])
      else (fst (FitsAny_loop p (preFilterState p pod) pod nis),
            PreFilter pod # snd (FitsAny_loop p (preFilterState p pod) pod nis)))"
  by (simp add: FitsAny_def preFilterStatus_def preFilterState_def Let_def split: prod.splits)

lemma CheckPredicates_fits_iff:
  "fst (CheckPredicates p pod ni) = Returns None \<longleftrightarrow>
     IsSuccess (preFilterStatus p pod) \<and> filtersOk (filterStatusesFor p pod ni)"
  by (simp add: CheckPredicates_unfold CheckPredicates_loop_fits)

lemma FitsAny_loop_Cons:
  "FitsAny_loop p st pod ((name, ni) # rest) =
     (case node ni of
        None \<Rightarrow> (NilPointerPanic, [])
      | Some n \<Rightarrow>
          if Unschedulable (Node_Spec n) then FitsAny_loop p st pod rest
          else if filtersOk (RunFilterPlugins (framework p) (delegatingSharedLister p) st pod ni)
          then (Returns (name, None), [Filter pod ni])
          else (fst (FitsAny_loop p st pod rest), Filter pod ni # snd (FitsAny_loop p st pod rest)))"
  by (simp add: Let_def split: prod.splits option.splits)

lemma FitsAny_loop_sound:
  "fst (FitsAny_loop p st pod nis) = Returns (name, None) \<Longrightarrow>
     \<exists>ni. (name, ni) \<in> set nis \<and> schedulable ni \<and>
          filtersOk (RunFilterPlugins (framework p) (delegatingSharedLister p) st pod ni)"
proof (induction nis)
  case Nil
  then show ?case by simp
next
  case (Cons e rest)
  obtain k ni where e: "e = (k, ni)" by (cases e)
  show ?case
    using Cons unfolding e
    by (auto simp: FitsAny_loop_Cons schedulable_def simp del: FitsAny_loop.simps(2)
             split: option.splits if_splits)
qed

lemma FitsAny_loop_complete:
  "\<forall>(k, ni) \<in> set nis. node ni \<noteq> None \<Longrightarrow>
   \<exists>(k, ni) \<in> set nis. schedulable ni \<and>
          filtersOk (RunFilterPlugins (framework p) (delegatingSharedLister p) st pod ni) \<Longrightarrow>
   \<exists>name. fst (FitsAny_loop p st pod nis) = Returns (name, None)"
proof (induction nis)
  case Nil
  then show ?case by simp
next
  case (Cons e rest)
  obtain k ni where e: "e = (k, ni)" by (cases e)
  show ?case
    using Cons unfolding e
    by (auto simp: FitsAny_loop_Cons schedulable_def simp del: FitsAny_loop.simps(2)
             split: option.splits if_splits)
qed

lemma FitsAny_loop_none:
  "\<forall>(k, ni) \<in> set nis. node ni \<noteq> None \<Longrightarrow>
   \<not> (\<exists>(k, ni) \<in> set nis. schedulable ni \<and>
          filtersOk (RunFilterPlugins (framework p) (delegatingSharedLister p) st pod ni)) \<Longrightarrow>
   fst (FitsAny_loop p st pod nis) =
     Returns ([], Some (''cannot put pod '' @ Name (Pod_ObjectMeta pod) @ '' on any node''))"
proof (induction nis)
  case Nil
  then show ?case by simp
next
  case (Cons e rest)
  obtain k ni where e: "e = (k, ni)" by (cases e)
  show ?case
    using Cons unfolding e
    by (auto simp: FitsAny_loop_Cons schedulable_def simp del: FitsAny_loop.simps(2)
             split: option.splits if_splits)
qed

lemma FitsAny_loop_calls:
  "c \<in> set (snd (FitsAny_loop p st pod nis)) \<Longrightarrow>
     \<exists>k ni n. c = Filter pod ni \<and> (k, ni) \<in> set nis \<and> node ni = Some n \<and>
              \<not> Unschedulable (Node_Spec n)"
proof (induction nis)
  case Nil
  then show ?case by simp
next
  case (Cons e rest)
  obtain k ni where e: "e = (k, ni)" by (cases e)
  show ?case
    using Cons unfolding e
    by (fastforce simp: FitsAny_loop_Cons simp del: FitsAny_loop.simps(2)
             split: option.splits if_splits)
qed


lemmas ex_defs = ex_checker_def ex_framework_accept_def ex_framework_prereject_def
  ex_framework_taints_def ex_info_def ex_node_n1_def ex_node_cordoned_def ex_node_tainted_def
  ex_pod_web_def NewEmptySnapshot_def NewCycleState_def

text \<open>
  Claim C1, as stated, fails on the code. With a framework in which nothing rejects, a
  node marked unschedulable passes \<open>CheckPredicates\<close>, yet \<open>FitsAny\<close> over the map holding
  only that node fails; and when the pre-filter stage rejects, \<open>FitsAny\<close> fails with the
  pre-filter error, not with the "cannot put pod ... on any node" error.
\<close>

theorem fitsAny_iff_checkPredicates_counterexample:
  "fst (CheckPredicates (ex_checker ex_framework_accept) ex_pod_web (ex_info ex_node_cordoned))
     = Returns None
   \<and> fst (FitsAny (ex_checker ex_framework_accept) ex_pod_web [(''n2'', ex_info ex_node_cordoned)])
     = Returns ([], Some ''cannot put pod web on any node'')
   \<and> fst (CheckPredicates (ex_checker ex_framework_prereject) ex_pod_web (ex_info ex_node_n1))
     \<noteq> Returns None
   \<and> fst (FitsAny (ex_checker ex_framework_prereject) ex_pod_web [(''n1'', ex_info ex_node_n1)])
     = Returns ([], Some ''error running pre filter plugins for pod web; bad affinity'')"
  by (simp add: CheckPredicates_def FitsAny_def ex_defs IsSuccess_def Message_def)

text \<open>
  Claim C1, amended. Over a candidate map whose entries all have a node, \<open>FitsAny\<close>
  returns a node name exactly when some entry whose node is not marked unschedulable
  passes \<open>CheckPredicates\<close>; the name returned is the key of such an entry; and when there
  is no such entry \<open>FitsAny\<close> fails with a plain error, which is the pre-filter error if
  the pre-filter stage rejected and the "cannot put pod ... on any node" error otherwise.
\<close>

theorem fitsAny_iff_schedulable_checkPredicates:
  assumes "\<forall>(k, ni) \<in> set nodeInfos. node ni \<noteq> None"
  shows "((\<exists>name. fst (FitsAny p pod nodeInfos) = Returns (name, None)) \<longleftrightarrow>
            (\<exists>(k, ni) \<in> set nodeInfos. schedulable ni \<and> fst (CheckPredicates p pod ni) = Returns None))
         \<and> (\<forall>name. fst (FitsAny p pod nodeInfos) = Returns (name, None) \<longrightarrow>
               (\<exists>ni. (name, ni) \<in> set nodeInfos \<and> schedulable ni \<and>
                     fst (CheckPredicates p pod ni) = Returns None))
         \<and> (\<not> (\<exists>(k, ni) \<in> set nodeInfos. schedulable ni \<and>
                   fst (CheckPredicates p pod ni) = Returns None) \<longrightarrow>
               fst (FitsAny p pod nodeInfos) =
                 Returns ([], Some (if IsSuccess (preFilterStatus p pod)
                    then ''cannot put pod '' @ Name (Pod_ObjectMeta pod) @ '' on any node''
                    else ''error running pre filter plugins for pod ''
                           @ Name (Pod_ObjectMeta pod) @ ''; '' @ Message (preFilterStatus p pod))))"
proof (cases "IsSuccess (preFilterStatus p pod)")
  case False
  then show ?thesis
    by (simp add: FitsAny_unfold CheckPredicates_fits_iff)
next
  case True
  let ?st = "preFilterState p pod"
  have fits: "\<And>ni. fst (CheckPredicates p pod ni) = Returns None \<longleftrightarrow>
      filtersOk (RunFilterPlugins (framework p) (delegatingSharedLister p) ?st pod ni)"
    using True by (simp add: CheckPredicates_fits_iff filterStatusesFor_def)
  have res: "fst (FitsAny p pod nodeInfos) = fst (FitsAny_loop p ?st pod nodeInfos)"
    using True by (simp add: FitsAny_unfold)
  have sound: "\<And>name. fst (FitsAny p pod nodeInfos) = Returns (name, None) \<Longrightarrow>
      \<exists>ni. (name, ni) \<in> set nodeInfos \<and> schedulable ni \<and> fst (CheckPredicates p pod ni) = Returns None"
    unfolding res fits by (rule FitsAny_loop_sound)
  have complete: "\<exists>(k, ni) \<in> set nodeInfos. schedulable ni \<and> fst (CheckPredicates p pod ni) = Returns None
      \<Longrightarrow> \<exists>name. fst (FitsAny p pod nodeInfos) = Returns (name, None)"
    unfolding res fits using assms by (rule FitsAny_loop_complete)
  have none: "\<not> (\<exists>(k, ni) \<in> set nodeInfos. schedulable ni \<and> fst (CheckPredicates p pod ni) = Returns None)
      \<Longrightarrow> fst (FitsAny p pod nodeInfos) =
            Returns ([], Some (''cannot put pod '' @ Name (Pod_ObjectMeta pod) @ '' on any node''))"
    unfolding res fits using assms by (rule FitsAny_loop_none)
  have iff: "(\<exists>name. fst (FitsAny p pod nodeInfos) = Returns (name, None)) \<longleftrightarrow>
            (\<exists>(k, ni) \<in> set nodeInfos. schedulable ni \<and> fst (CheckPredicates p pod ni) = Returns None)"
    using sound complete by blast
  show ?thesis
    using iff sound none True by simp
qed

theorem fitsAny_iff_schedulable_checkPredicates_witness:
  "(\<exists>name. fst (FitsAny (ex_checker ex_framework_taints) ex_pod_web
       [(''n3'', ex_info ex_node_tainted), (''n2'', ex_info ex_node_cordoned),
        (''n1'', ex_info ex_node_n1)]) = Returns (name, None))
   \<and> schedulable (ex_info ex_node_n1)
   \<and> fst (CheckPredicates (ex_checker ex_framework_taints) ex_pod_web (ex_info ex_node_n1))
       = Returns None"
proof -
  have nonil: "\<forall>(k, ni) \<in> set [(''n3'', ex_info ex_node_tainted), (''n2'', ex_info ex_node_cordoned),
        (''n1'', ex_info ex_node_n1)]. node ni \<noteq> None"
    by (simp add: ex_info_def)
  have s: "schedulable (ex_info ex_node_n1)"
    by (simp add: schedulable_def ex_info_def ex_node_n1_def)
  have c: "fst (CheckPredicates (ex_checker ex_framework_taints) ex_pod_web (ex_info ex_node_n1))
       = Returns None"
    by (simp add: CheckPredicates_def ex_defs IsSuccess_def)
  show ?thesis
    using fitsAny_iff_schedulable_checkPredicates [OF nonil, of "ex_checker ex_framework_taints" ex_pod_web] s c
    by auto
qed

text \<open>
  Claim C3. The framework calls of \<open>FitsAny\<close> are one pre-filter call followed by filter
  calls only, each against an entry of the candidate map whose node is not marked
  unschedulable; and a returned name is the key of an entry whose node is not marked
  unschedulable and for which every filter status is a success.
\<close>

theorem fitsAny_calls:
  "(\<exists>calls. snd (FitsAny p pod nodeInfos) = PreFilter pod # calls \<and>
       (\<forall>c \<in> set calls. \<exists>k ni n. c = Filter pod ni \<and> (k, ni) \<in> set nodeInfos \<and>
            node ni = Some n \<and> \<not> Unschedulable (Node_Spec n)))
   \<and> (\<forall>name. fst (FitsAny p pod nodeInfos) = Returns (name, None) \<longrightarrow>
         (\<exists>ni n. (name, ni) \<in> set nodeInfos \<and> node ni = Some n \<and> \<not> Unschedulable (Node_Spec n) \<and>
            (\<forall>(f, s) \<in> set (filterStatusesFor p pod ni). IsSuccess s)))"
proof (cases "IsSuccess (preFilterStatus p pod)")
  case False
  then show ?thesis by (simp add: FitsAny_unfold)
next
  case True
  have calls: "\<forall>c \<in> set (snd (FitsAny_loop p (preFilterState p pod) pod nodeInfos)).
      \<exists>k ni n. c = Filter pod ni \<and> (k, ni) \<in> set nodeInfos \<and>
            node ni = Some n \<and> \<not> Unschedulable (Node_Spec n)"
    using FitsAny_loop_calls by blast
  have ret: "\<And>name. fst (FitsAny_loop p (preFilterState p pod) pod nodeInfos) = Returns (name, None) \<Longrightarrow>
      \<exists>ni n. (name, ni) \<in> set nodeInfos \<and> node ni = Some n \<and> \<not> Unschedulable (Node_Spec n) \<and>
            (\<forall>(f, s) \<in> set (filterStatusesFor p pod ni). IsSuccess s)"
  proof -
    fix name
    assume "fst (FitsAny_loop p (preFilterState p pod) pod nodeInfos) = Returns (name, None)"
    from FitsAny_loop_sound [OF this] obtain ni where
      ni: "(name, ni) \<in> set nodeInfos" "schedulable ni"
          "filtersOk (filterStatusesFor p pod ni)"
      by (auto simp: filterStatusesFor_def)
    from ni(2) obtain n where "node ni = Some n" "\<not> Unschedulable (Node_Spec n)"
      by (auto simp: schedulable_def split: option.splits)
    with ni show "\<exists>ni n. (name, ni) \<in> set nodeInfos \<and> node ni = Some n \<and> \<not> Unschedulable (Node_Spec n) \<and>
            (\<forall>(f, s) \<in> set (filterStatusesFor p pod ni). IsSuccess s)"
      by (auto simp: filtersOk_iff)
  qed
  show ?thesis
    using True calls ret by (simp add: FitsAny_unfold)
qed

theorem fitsAny_calls_witness:
  "snd (FitsAny (ex_checker ex_framework_taints) ex_pod_web
       [(''n3'', ex_info ex_node_tainted), (''n2'', ex_info ex_node_cordoned),
        (''n1'', ex_info ex_node_n1)])
     = [PreFilter ex_pod_web, Filter ex_pod_web (ex_info ex_node_tainted),
        Filter ex_pod_web (ex_info ex_node_n1)]
   \<and> fst (FitsAny (ex_checker ex_framework_taints) ex_pod_web
       [(''n3'', ex_info ex_node_tainted), (''n2'', ex_info ex_node_cordoned),
        (''n1'', ex_info ex_node_n1)]) = Returns (''n1'', None)
   \<and> (\<exists>ni n. (''n1'', ni) \<in> set [(''n3'', ex_info ex_node_tainted), (''n2'', ex_info ex_node_cordoned),
        (''n1'', ex_info ex_node_n1)] \<and> node ni = Some n \<and> \<not> Unschedulable (Node_Spec n) \<and>
        (\<forall>(f, s) \<in> set (filterStatusesFor (ex_checker ex_framework_taints) ex_pod_web ni). IsSuccess s))"
proof -
  have r: "FitsAny (ex_checker ex_framework_taints) ex_pod_web
       [(''n3'', ex_info ex_node_tainted), (''n2'', ex_info ex_node_cordoned),
        (''n1'', ex_info ex_node_n1)]
     = (Returns (''n1'', None), [PreFilter ex_pod_web, Filter ex_pod_web (ex_info ex_node_tainted),
        Filter ex_pod_web (ex_info ex_node_n1)])"
    by (simp add: FitsAny_def ex_checker_def ex_framework_taints_def ex_info_def ex_node_n1_def
          ex_node_cordoned_def ex_node_tainted_def ex_pod_web_def IsSuccess_def)
  show ?thesis
    using fitsAny_calls [of "ex_checker ex_framework_taints" ex_pod_web
       "[(''n3'', ex_info ex_node_tainted), (''n2'', ex_info ex_node_cordoned),
        (''n1'', ex_info ex_node_n1)]"] r
    by simp
qed

text \<open>
  Claim C4. When the pre-filter stage rejects a pod, \<open>CheckPredicates\<close> returns an internal
  predicate error with an empty predicate name and the message and reasons of the
  pre-filter status, after the pre-filter call alone; the result is the same for any two
  node infos.
\<close>

theorem checkPredicates_prefilter_rejection:
  assumes "\<not> IsSuccess (preFilterStatus p pod)"
  shows "CheckPredicates p pod nodeInfo =
           (Returns (Some \<lparr>errorType = InternalPredicateError, predicateName = [],
                           errorMessage = Message (preFilterStatus p pod),
                           errorReasons = reasons (preFilterStatus p pod),
                           debugInfo = emptyString\<rparr>),
            [PreFilter pod])
         \<and> CheckPredicates p pod nodeInfo = CheckPredicates p pod nodeInfo'"
  using assms by (simp add: CheckPredicates_unfold NewPredicateError_def)

theorem checkPredicates_prefilter_rejection_witness:
  "\<not> IsSuccess (preFilterStatus (ex_checker ex_framework_prereject) ex_pod_web)
   \<and> CheckPredicates (ex_checker ex_framework_prereject) ex_pod_web (ex_info ex_node_n1) =
           (Returns (Some \<lparr>errorType = InternalPredicateError, predicateName = [],
                           errorMessage = ''bad affinity'',
                           errorReasons = [''bad affinity''],
                           debugInfo = emptyString\<rparr>),
            [PreFilter ex_pod_web])
   \<and> CheckPredicates (ex_checker ex_framework_prereject) ex_pod_web (ex_info ex_node_n1) =
       CheckPredicates (ex_checker ex_framework_prereject) ex_pod_web (ex_info ex_node_tainted)"
proof -
  have s: "preFilterStatus (ex_checker ex_framework_prereject) ex_pod_web
             = \<lparr>code = UnschedulableCode, reasons = [''bad affinity'']\<rparr>"
    by (simp add: preFilterStatus_def ex_checker_def ex_framework_prereject_def)
  have h: "\<not> IsSuccess (preFilterStatus (ex_checker ex_framework_prereject) ex_pod_web)"
    by (simp add: s IsSuccess_def)
  show ?thesis
    using h checkPredicates_prefilter_rejection [OF h, of "ex_info ex_node_n1" "ex_info ex_node_tainted"]
    by (auto simp: s Message_def)
qed

text \<open>
  Claim C5. When listing the nodes or listing the pods fails, \<open>SnapshotClusterState\<close>
  returns the wrapped error and leaves the checker, and so the installed snapshot, as it
  was: \<open>CheckPredicates\<close> and \<open>FitsAny\<close> give the same results after the failed call as
  before it.
\<close>

theorem failed_refresh_keeps_snapshot:
  assumes "(\<exists>err. nodeList = Inl err) \<or> (\<exists>err. podList = Inl err)"
  shows "fst (SnapshotClusterState p nodeList podList) =
           Some (case nodeList of
                   Inl err \<Rightarrow> ''could not list Nodes; '' @ err
                 | Inr nodes \<Rightarrow> (case podList of Inl err \<Rightarrow> ''could not list Pods; '' @ err
                                  | Inr pods \<Rightarrow> []))
         \<and> snd (SnapshotClusterState p nodeList podList) = p
         \<and> delegatingSharedLister (snd (SnapshotClusterState p nodeList podList))
             = delegatingSharedLister p
         \<and> CheckPredicates (snd (SnapshotClusterState p nodeList podList)) pod nodeInfo
             = CheckPredicates p pod nodeInfo
         \<and> FitsAny (snd (SnapshotClusterState p nodeList podList)) pod nodeInfos
             = FitsAny p pod nodeInfos"
  using assms by (auto simp: SnapshotClusterState_def split: sum.splits)

theorem failed_refresh_keeps_snapshot_witness:
  "fst (SnapshotClusterState (ex_checker ex_framework_taints) (Inr [ex_node_n1]) (Inl ''timeout''))
     = Some ''could not list Pods; timeout''
   \<and> delegatingSharedLister
       (snd (SnapshotClusterState (ex_checker ex_framework_taints) (Inr [ex_node_n1]) (Inl ''timeout'')))
     = delegatingSharedLister (ex_checker ex_framework_taints)
   \<and> CheckPredicates
       (snd (SnapshotClusterState (ex_checker ex_framework_taints) (Inr [ex_node_n1]) (Inl ''timeout'')))
       ex_pod_web (ex_info ex_node_tainted)
     = CheckPredicates (ex_checker ex_framework_taints) ex_pod_web (ex_info ex_node_tainted)"
  using failed_refresh_keeps_snapshot [of "Inr [ex_node_n1]" "Inl ''timeout''"
          "ex_checker ex_framework_taints" ex_pod_web "ex_info ex_node_tainted" "[]"]
  by simp

text \<open>
  Claim C8. An error returned by \<open>CheckPredicates\<close> carries the node's taint list as debug
  info when it is attributed to the plugin \<^verbatim>\<open>TaintToleration\<close>, and the empty debug info
  when it is attributed to any other name.
\<close>

theorem debug_info_only_for_taints:
  assumes "fst (CheckPredicates p pod nodeInfo) = Returns (Some e)"
  shows "if predicateName e = ''TaintToleration''
         then \<exists>n. node nodeInfo = Some n \<and> debugInfo e = TaintsOnNode (Taints (Node_Spec n))
         else debugInfo e = emptyString"
proof (cases "IsSuccess (preFilterStatus p pod)")
  case False
  with assms show ?thesis
    by (auto simp: CheckPredicates_unfold NewPredicateError_def)
next
  case True
  with assms have "CheckPredicates_loop nodeInfo (filterStatusesFor p pod nodeInfo) = Returns (Some e)"
    by (simp add: CheckPredicates_unfold)
  then show ?thesis by (rule CheckPredicates_loop_debug)
qed

theorem debug_info_only_for_taints_witness:
  "\<exists>e. fst (CheckPredicates (ex_checker ex_framework_taints) ex_pod_web (ex_info ex_node_tainted))
          = Returns (Some e)
      \<and> errorType e = NotSchedulablePredicateError
      \<and> predicateName e = ''TaintToleration''
      \<and> debugInfo e = TaintsOnNode (Taints (Node_Spec ex_node_tainted))"
proof -
  let ?e = "\<lparr>errorType = NotSchedulablePredicateError, predicateName = ''TaintToleration'',
             errorMessage = ''untolerated taint'', errorReasons = [''untolerated taint''],
             debugInfo = TaintsOnNode [\<lparr>Key = ''dedicated'', Value = ''gpu'', Effect = ''NoSchedule''\<rparr>]\<rparr>"
  have r: "fst (CheckPredicates (ex_checker ex_framework_taints) ex_pod_web (ex_info ex_node_tainted))
          = Returns (Some ?e)"
    by (simp add: CheckPredicates_def ex_defs IsSuccess_def IsUnschedulable_def Message_def
          buildDebugInfo_def NewPredicateError_def)
  have "debugInfo ?e = TaintsOnNode (Taints (Node_Spec ex_node_tainted))"
    using debug_info_only_for_taints [OF r] by (simp add: ex_info_def)
  with r show ?thesis by (intro exI [of _ ?e]) simp
qed

text \<open>
  Claim C10. For a pod that passes the pre-filter stage and a node info whose node is
  marked unschedulable and for which every filter status is a success,
  \<open>CheckPredicates\<close> reports a fit, while \<open>FitsAny\<close> over the map holding only that node info
  fails with the "cannot put pod ... on any node" error after the pre-filter call alone,
  and \<open>FitsAny\<close> over any map makes no filter call for that node info.
\<close>

theorem checkPredicates_ignores_unschedulable:
  assumes "IsSuccess (preFilterStatus p pod)"
    and "node nodeInfo = Some n"
    and "Unschedulable (Node_Spec n)"
    and "\<forall>(f, s) \<in> set (filterStatusesFor p pod nodeInfo). IsSuccess s"
  shows "fst (CheckPredicates p pod nodeInfo) = Returns None
         \<and> FitsAny p pod [(name, nodeInfo)] =
             (Returns ([], Some (''cannot put pod '' @ Name (Pod_ObjectMeta pod) @ '' on any node'')),
              [PreFilter pod])
         \<and> Filter pod nodeInfo \<notin> set (snd (FitsAny p pod nodeInfos))"
proof -
  have a: "fst (CheckPredicates p pod nodeInfo) = Returns None"
    using assms(1,4) by (simp add: CheckPredicates_fits_iff filtersOk_iff)
  have b: "FitsAny p pod [(name, nodeInfo)] =
             (Returns ([], Some (''cannot put pod '' @ Name (Pod_ObjectMeta pod) @ '' on any node'')),
              [PreFilter pod])"
    using assms(1,2,3) by (simp add: FitsAny_unfold)
  have c: "Filter pod nodeInfo \<notin> set (snd (FitsAny p pod nodeInfos))"
  proof
    assume "Filter pod nodeInfo \<in> set (snd (FitsAny p pod nodeInfos))"
    then have "Filter pod nodeInfo \<in> set (snd (FitsAny_loop p (preFilterState p pod) pod nodeInfos))"
      using assms(1) by (simp add: FitsAny_unfold)
    from FitsAny_loop_calls [OF this] show False
      using assms(2,3) by auto
  qed
  from a b c show ?thesis by simp
qed

theorem checkPredicates_ignores_unschedulable_witness:
  "fst (CheckPredicates (ex_checker ex_framework_taints) ex_pod_web (ex_info ex_node_cordoned))
     = Returns None
   \<and> FitsAny (ex_checker ex_framework_taints) ex_pod_web [(''n2'', ex_info ex_node_cordoned)] =
       (Returns ([], Some ''cannot put pod web on any node''), [PreFilter ex_pod_web])"
proof -
  have 1: "IsSuccess (preFilterStatus (ex_checker ex_framework_taints) ex_pod_web)"
    by (simp add: preFilterStatus_def ex_checker_def ex_framework_taints_def IsSuccess_def)
  have 2: "node (ex_info ex_node_cordoned) = Some ex_node_cordoned"
    by (simp add: ex_info_def)
  have 3: "Unschedulable (Node_Spec ex_node_cordoned)"
    by (simp add: ex_node_cordoned_def)
  have 4: "\<forall>(f, s) \<in> set (filterStatusesFor (ex_checker ex_framework_taints) ex_pod_web
              (ex_info ex_node_cordoned)). IsSuccess s"
    by (simp add: filterStatusesFor_def ex_checker_def ex_framework_taints_def ex_info_def
          ex_node_cordoned_def)
  have n: "Name (Pod_ObjectMeta ex_pod_web) = ''web''"
    by (simp add: ex_pod_web_def)
  show ?thesis
    using checkPredicates_ignores_unschedulable [OF 1 2 3 4, of "''n2''"] n by simp
qed

section \<open>Properties of the daemonset simulator\<close>

lemma digit_inj: "a < 10 \<Longrightarrow> b < 10 \<Longrightarrow> digit a = digit b \<Longrightarrow> a = b"
proof -
  assume a: "a < 10" and b: "b < 10" and e: "digit a = digit b"
  from e have "(of_char (digit a) :: nat) = of_char (digit b)" by simp
  then have "(48 + a) mod 256 = (48 + b) mod 256"
    by (simp add: digit_def)
  with a b show "a = b" by simp
qed

lemma decimal_nonempty: "decimal n \<noteq> []"
  by (subst decimal.simps) simp

lemma decimal_inj: "decimal n = decimal m \<Longrightarrow> n = m"
proof (induction n arbitrary: m rule: decimal.induct)
  case (1 n)
  show ?case
  proof (cases "n < 10")
    case True
    show ?thesis
    proof (cases "m < 10")
      case m: True
      from "1.prems" True m have "digit n = digit m"
        by (simp add: decimal.simps [of n] decimal.simps [of m])
      with True m show ?thesis using digit_inj by blast
    next
      case m: False
      from "1.prems" True m have "[digit n] = decimal (m div 10) @ [digit (m mod 10)]"
        by (simp add: decimal.simps [of n] decimal.simps [of m])
      then have "decimal (m div 10) = []" by simp
      then show ?thesis by (simp add: decimal_nonempty)
    qed
  next
    case False
    show ?thesis
    proof (cases "m < 10")
      case m: True
      from "1.prems" False m have "decimal (n div 10) @ [digit (n mod 10)] = [digit m]"
        by (simp add: decimal.simps [of n] decimal.simps [of m])
      then have "decimal (n div 10) = []" by simp
      then show ?thesis by (simp add: decimal_nonempty)
    next
      case m: False
      from "1.prems" False m
      have "decimal (n div 10) @ [digit (n mod 10)] = decimal (m div 10) @ [digit (m mod 10)]"
        by (simp add: decimal.simps [of n] decimal.simps [of m])
      then have d: "decimal (n div 10) = decimal (m div 10)"
        and l: "digit (n mod 10) = digit (m mod 10)"
        by simp_all
      from "1.IH" [OF False d] have q: "n div 10 = m div 10" .
      have "n mod 10 < 10" "m mod 10 < 10" by simp_all
      with l have r: "n mod 10 = m mod 10" using digit_inj by blast
      from q r show ?thesis by (metis div_mult_mod_eq)
    qed
  qed
qed

lemma newPod_fields:
  "Namespace (Pod_ObjectMeta (fst (newPod I ds nodeName g))) = Namespace (DaemonSet_ObjectMeta ds)"
  "Name (Pod_ObjectMeta (fst (newPod I ds nodeName g))) =
     Name (DaemonSet_ObjectMeta ds) @ ''-pod-'' @ decimal (fst (I g))"
  "Labels (Pod_ObjectMeta (fst (newPod I ds nodeName g))) =
     Labels (Template_ObjectMeta (Template (DaemonSet_Spec ds)))"
  "Pod_Spec (fst (newPod I ds nodeName g)) =
     (Template_Spec (Template (DaemonSet_Spec ds)))\<lparr>NodeName := nodeName\<rparr>"
  "snd (newPod I ds nodeName g) = snd (I g)"
  by (simp_all add: newPod_def Let_def split: prod.splits)

lemma synthesized_Cons:
  "synthesized I nodeName (ds # rest) g =
     fst (newPod I ds nodeName g) # synthesized I nodeName rest (snd (I g))"
  by (simp add: newPod_def Let_def split: prod.splits)

lemma draws_Suc: "draws I g (Suc k) = fst (I g) # draws I (snd (I g)) k"
  by (simp add: Let_def split: prod.splits)

lemma GetDaemonSetPodsForNode_loop_eq:
  "node nodeInfo = Some n \<Longrightarrow>
   fst (GetDaemonSetPodsForNode_loop sim pc snap nodeInfo dss result g) =
     Returns (result @
       filter (\<lambda>pod. pc snap pod (FakeNodeInfoForNodeName sim (Name (Node_ObjectMeta n))) = None)
         (synthesized (Int63 sim) (Name (Node_ObjectMeta n)) dss g))"
proof (induction dss arbitrary: result g)
  case Nil
  then show ?case by simp
next
  case (Cons ds rest)
  obtain pod g' where p: "newPod (Int63 sim) ds (Name (Node_ObjectMeta n)) g = (pod, g')"
    by (cases "newPod (Int63 sim) ds (Name (Node_ObjectMeta n)) g")
  show ?case
    using Cons.prems p Cons.IH [OF Cons.prems, of "result @ [pod]" g']
      Cons.IH [OF Cons.prems, of result g']
    by simp
qed

lemma length_synthesized: "length (synthesized I nodeName dss g) = length dss"
  by (induction dss arbitrary: g) (auto simp: Let_def split: prod.splits)

lemma synthesized_nth_fields:
  "i < length dss \<Longrightarrow>
     Namespace (Pod_ObjectMeta (synthesized I nodeName dss g ! i))
       = Namespace (DaemonSet_ObjectMeta (dss ! i))
     \<and> Pod_Spec (synthesized I nodeName dss g ! i)
       = (Template_Spec (Template (DaemonSet_Spec (dss ! i))))\<lparr>NodeName := nodeName\<rparr>
     \<and> Name (Pod_ObjectMeta (synthesized I nodeName dss g ! i))
       = Name (DaemonSet_ObjectMeta (dss ! i)) @ ''-pod-'' @ decimal (draws I g (length dss) ! i)"
proof (induction dss arbitrary: g i)
  case Nil
  then show ?case by simp
next
  case (Cons ds rest)
  show ?case
  proof (cases i)
    case 0
    then show ?thesis
      by (simp add: synthesized_Cons draws_Suc newPod_fields
            del: synthesized.simps draws.simps)
  next
    case (Suc j)
    with Cons.prems have "j < length rest" by simp
    from Cons.IH [OF this, of "snd (I g)"] Suc show ?thesis
      by (simp add: synthesized_Cons draws_Suc del: synthesized.simps draws.simps)
  qed
qed

lemma decimal_23: "decimal 23 = ''23''"
  by code_simp

lemma decimal_5: "decimal 5 = ''5''"
  by code_simp

text \<open>
  Claim C6, as stated, fails on the code where it calls the name fresh. In two calls for
  the same node and daemonset, the second begun with the random source as the first left
  it, a source that yields the same value twice gives the synthesized pod the same name
  both times.
\<close>

theorem daemonset_pod_name_not_fresh_counterexample:
  "fst (GetDaemonSetPodsForNode ex_simulator (ex_info ex_node_n1) [ex_daemonset_logger]
          ex_predicateChecker [5, 5])
     = Returns (Inr [\<lparr>Pod_ObjectMeta = \<lparr>Name = ''logger-pod-5'', Namespace = ''kube-system'',
                                         Labels = [(''app'', ''logger'')]\<rparr>,
                       Pod_Spec = \<lparr>NodeName = ''n1'', Tolerations = [], HostPorts = []\<rparr>,
                       Pod_Status = \<lparr>NominatedNodeName = []\<rparr>\<rparr>])
   \<and> fst (GetDaemonSetPodsForNode ex_simulator (ex_info ex_node_n1) [ex_daemonset_logger]
          ex_predicateChecker
          (snd (GetDaemonSetPodsForNode ex_simulator (ex_info ex_node_n1) [ex_daemonset_logger]
                  ex_predicateChecker [5, 5])))
     = Returns (Inr [\<lparr>Pod_ObjectMeta = \<lparr>Name = ''logger-pod-5'', Namespace = ''kube-system'',
                                         Labels = [(''app'', ''logger'')]\<rparr>,
                       Pod_Spec = \<lparr>NodeName = ''n1'', Tolerations = [], HostPorts = []\<rparr>,
                       Pod_Status = \<lparr>NominatedNodeName = []\<rparr>\<rparr>])"
  by (simp add: GetDaemonSetPodsForNode_def ex_simulator_def ex_info_def ex_node_n1_def
        ex_daemonset_logger_def ex_predicateChecker_def ex_Int63_def newPod_def decimal_5)

text \<open>
  Claim C6, amended. When the node is present and the single-node snapshot is built,
  \<open>GetDaemonSetPodsForNode\<close> returns exactly those of the synthesized pods, in order, for
  which the predicate checker reports a fit on that snapshot and the node's name. There is
  one synthesized pod per daemonset: it has the daemonset's namespace, the pod template's
  spec with the node name set to the given node's name, and as its name the name of the
  daemonset followed by \<^verbatim>\<open>-pod-\<close> and the decimal digits of the value that the random
  source yields for it. The names of two synthesized pods whose daemonsets have the same
  name are equal exactly when their two values are equal.
\<close>

theorem daemonset_pods_are_fitting_synthesized:
  assumes "node nodeInfo = Some n"
    and "AddNodeWithPods sim (Some n) (Pods nodeInfo) = Returns (Inr clusterSnapshot)"
  shows "fst (GetDaemonSetPodsForNode sim nodeInfo daemonsets predicateChecker g) =
           Returns (Inr (filter
             (\<lambda>pod. predicateChecker clusterSnapshot pod
                      (FakeNodeInfoForNodeName sim (Name (Node_ObjectMeta n))) = None)
             (synthesized (Int63 sim) (Name (Node_ObjectMeta n)) daemonsets g)))
         \<and> length (synthesized (Int63 sim) (Name (Node_ObjectMeta n)) daemonsets g)
             = length daemonsets
         \<and> (\<forall>i < length daemonsets.
              Namespace (Pod_ObjectMeta (synthesized (Int63 sim) (Name (Node_ObjectMeta n)) daemonsets g ! i))
                = Namespace (DaemonSet_ObjectMeta (daemonsets ! i))
              \<and> Pod_Spec (synthesized (Int63 sim) (Name (Node_ObjectMeta n)) daemonsets g ! i)
                = (Template_Spec (Template (DaemonSet_Spec (daemonsets ! i))))
                    \<lparr>NodeName := Name (Node_ObjectMeta n)\<rparr>
              \<and> Name (Pod_ObjectMeta (synthesized (Int63 sim) (Name (Node_ObjectMeta n)) daemonsets g ! i))
                = Name (DaemonSet_ObjectMeta (daemonsets ! i)) @ ''-pod-''
                    @ decimal (draws (Int63 sim) g (length daemonsets) ! i))
         \<and> (\<forall>i < length daemonsets. \<forall>j < length daemonsets.
              Name (DaemonSet_ObjectMeta (daemonsets ! i)) = Name (DaemonSet_ObjectMeta (daemonsets ! j)) \<longrightarrow>
              (Name (Pod_ObjectMeta (synthesized (Int63 sim) (Name (Node_ObjectMeta n)) daemonsets g ! i))
                 = Name (Pod_ObjectMeta (synthesized (Int63 sim) (Name (Node_ObjectMeta n)) daemonsets g ! j))
               \<longleftrightarrow> draws (Int63 sim) g (length daemonsets) ! i
                     = draws (Int63 sim) g (length daemonsets) ! j))"
proof -
  let ?name = "Name (Node_ObjectMeta n)"
  let ?syn = "synthesized (Int63 sim) ?name daemonsets g"
  let ?draws = "draws (Int63 sim) g (length daemonsets)"
  obtain r g' where loop:
    "GetDaemonSetPodsForNode_loop sim predicateChecker clusterSnapshot nodeInfo daemonsets [] g = (r, g')"
    by (cases "GetDaemonSetPodsForNode_loop sim predicateChecker clusterSnapshot nodeInfo daemonsets [] g")
  have r: "r = Returns (filter
             (\<lambda>pod. predicateChecker clusterSnapshot pod (FakeNodeInfoForNodeName sim ?name) = None) ?syn)"
    using GetDaemonSetPodsForNode_loop_eq [OF assms(1), of sim predicateChecker clusterSnapshot
            daemonsets "[]" g] loop
    by simp
  have res: "fst (GetDaemonSetPodsForNode sim nodeInfo daemonsets predicateChecker g) =
      Returns (Inr (filter
             (\<lambda>pod. predicateChecker clusterSnapshot pod (FakeNodeInfoForNodeName sim ?name) = None) ?syn))"
    using assms loop r by (simp add: GetDaemonSetPodsForNode_def)
  have fields: "\<forall>i < length daemonsets.
              Namespace (Pod_ObjectMeta (?syn ! i)) = Namespace (DaemonSet_ObjectMeta (daemonsets ! i))
              \<and> Pod_Spec (?syn ! i)
                = (Template_Spec (Template (DaemonSet_Spec (daemonsets ! i))))\<lparr>NodeName := ?name\<rparr>
              \<and> Name (Pod_ObjectMeta (?syn ! i))
                = Name (DaemonSet_ObjectMeta (daemonsets ! i)) @ ''-pod-'' @ decimal (?draws ! i)"
  proof (intro allI impI)
    fix i assume "i < length daemonsets"
    then show "Namespace (Pod_ObjectMeta (?syn ! i)) = Namespace (DaemonSet_ObjectMeta (daemonsets ! i))
              \<and> Pod_Spec (?syn ! i)
                = (Template_Spec (Template (DaemonSet_Spec (daemonsets ! i))))\<lparr>NodeName := ?name\<rparr>
              \<and> Name (Pod_ObjectMeta (?syn ! i))
                = Name (DaemonSet_ObjectMeta (daemonsets ! i)) @ ''-pod-'' @ decimal (?draws ! i)"
      by (rule synthesized_nth_fields)
  qed
  have names: "\<forall>i < length daemonsets. \<forall>j < length daemonsets.
              Name (DaemonSet_ObjectMeta (daemonsets ! i)) = Name (DaemonSet_ObjectMeta (daemonsets ! j)) \<longrightarrow>
              (Name (Pod_ObjectMeta (?syn ! i)) = Name (Pod_ObjectMeta (?syn ! j))
               \<longleftrightarrow> ?draws ! i = ?draws ! j)"
  proof (intro allI impI)
    fix i j
    assume i: "i < length daemonsets" and j: "j < length daemonsets"
      and e: "Name (DaemonSet_ObjectMeta (daemonsets ! i)) = Name (DaemonSet_ObjectMeta (daemonsets ! j))"
    from fields i have ni: "Name (Pod_ObjectMeta (?syn ! i))
        = Name (DaemonSet_ObjectMeta (daemonsets ! i)) @ ''-pod-'' @ decimal (?draws ! i)"
      by blast
    from fields j have nj: "Name (Pod_ObjectMeta (?syn ! j))
        = Name (DaemonSet_ObjectMeta (daemonsets ! j)) @ ''-pod-'' @ decimal (?draws ! j)"
      by blast
    show "Name (Pod_ObjectMeta (?syn ! i)) = Name (Pod_ObjectMeta (?syn ! j))
               \<longleftrightarrow> ?draws ! i = ?draws ! j"
      unfolding ni nj e by (auto dest: decimal_inj)
  qed
  from res fields names show ?thesis
    by (simp add: length_synthesized)
qed

theorem daemonset_pods_are_fitting_synthesized_witness:
  "fst (GetDaemonSetPodsForNode ex_simulator (ex_info ex_node_tainted)
          [ex_daemonset_logger, ex_daemonset_driver] ex_predicateChecker [17, 23])
     = Returns (Inr [\<lparr>Pod_ObjectMeta = \<lparr>Name = ''driver-pod-23'', Namespace = ''gpu'',
                                         Labels = [(''app'', ''driver'')]\<rparr>,
                       Pod_Spec = \<lparr>NodeName = ''n3'', Tolerations = [''dedicated''], HostPorts = []\<rparr>,
                       Pod_Status = \<lparr>NominatedNodeName = []\<rparr>\<rparr>])
   \<and> Name (Pod_ObjectMeta (synthesized ex_Int63 ''n3''
             [ex_daemonset_logger, ex_daemonset_driver] [17, 23] ! 1)) = ''driver-pod-23''"
proof -
  have 1: "node (ex_info ex_node_tainted) = Some ex_node_tainted"
    by (simp add: ex_info_def)
  have 2: "AddNodeWithPods ex_simulator (Some ex_node_tainted) (Pods (ex_info ex_node_tainted))
             = Returns (Inr [(''n3'', ex_info ex_node_tainted)])"
    by (simp add: ex_simulator_def ex_info_def ex_node_tainted_def)
  have d: "draws ex_Int63 [17, 23] (Suc (Suc 0)) = [17, 23]"
    by (simp add: ex_Int63_def)
  show ?thesis
    using daemonset_pods_are_fitting_synthesized [OF 1 2,
            of "[ex_daemonset_logger, ex_daemonset_driver]" ex_predicateChecker "[17, 23]"]
    by (simp add: ex_simulator_def ex_info_def ex_node_tainted_def ex_daemonset_logger_def
          ex_daemonset_driver_def ex_predicateChecker_def ex_Int63_def newPod_def decimal_23 d)
qed

text \<open>
  Claim C7, as stated, fails on the code. The name is built from a random draw, and when
  the source yields the same value for two calls for one daemonset, the two names are
  equal.
\<close>

theorem newPod_name_collision_counterexample:
  "Name (Pod_ObjectMeta (fst (newPod ex_Int63 ex_daemonset_logger ''n1'' [5, 5])))
     = Name (Pod_ObjectMeta (fst (newPod ex_Int63 ex_daemonset_logger ''n1''
         (snd (newPod ex_Int63 ex_daemonset_logger ''n1'' [5, 5])))))"
  by (simp add: newPod_def ex_Int63_def)

text \<open>
  Claim C7, amended. For two synthesis calls for the same daemonset, the generated names
  are equal exactly when the values drawn from the random source are equal; so the names
  are distinct whenever the draws differ.
\<close>

theorem newPod_names_equal_iff_draws_equal:
  "Name (Pod_ObjectMeta (fst (newPod I ds nodeName g)))
     = Name (Pod_ObjectMeta (fst (newPod I ds nodeName' g')))
   \<longleftrightarrow> fst (I g) = fst (I g')"
  by (auto simp: newPod_fields dest: decimal_inj)

theorem newPod_names_equal_iff_draws_equal_witness:
  "Name (Pod_ObjectMeta (fst (newPod ex_Int63 ex_daemonset_logger ''n1'' [5, 6])))
     \<noteq> Name (Pod_ObjectMeta (fst (newPod ex_Int63 ex_daemonset_logger ''n1''
         (snd (newPod ex_Int63 ex_daemonset_logger ''n1'' [5, 6])))))"
  using newPod_names_equal_iff_draws_equal [of ex_Int63 ex_daemonset_logger "''n1''" "[5, 6]"
          "''n1''" "snd (newPod ex_Int63 ex_daemonset_logger ''n1'' [5, 6])"]
  by (simp add: newPod_fields ex_Int63_def)

end
